theory Spec2Isabelle
  imports Main "HOL-Library.AList"
begin

section \<open>JavaScript values\<close>

text \<open>
  The cache stores values of type \<open>any\<close> and the service tests them for truthiness, so the
  model needs the JavaScript values and their truthiness. Numbers are restricted to
  integers (the falsy number is \<open>0\<close>); \<open>NaN\<close> and fractions are outside the model.
\<close>

datatype jsval =
    JUndefined
  | JNull
  | JBool bool
  | JNum int
  | JStr string
  | JArr "jsval list"
  | JObj "(string \<times> jsval) list"

text \<open>ToBoolean: \<open>undefined\<close>, \<open>null\<close>, \<open>false\<close>, \<open>0\<close> and the empty string are falsy.\<close>

fun truthy :: "jsval \<Rightarrow> bool" where
  "truthy JUndefined = False"
| "truthy JNull = False"
| "truthy (JBool b) = b"
| "truthy (JNum n) = (n \<noteq> 0)"
| "truthy (JStr s) = (s \<noteq> [])"
| "truthy (JArr xs) = True"
| "truthy (JObj kvs) = True"

section \<open>The JavaScript Map\<close>

text \<open>
  A \<open>Map<string, V>\<close> keeps its entries in insertion order: \<open>set\<close> on a key that is
  present replaces the value in place, \<open>set\<close> on a new key appends, \<open>delete\<close> removes the
  entry. It is modelled as an association list.
\<close>

type_synonym 'v js_map = "(string \<times> 'v) list"

definition Map_new :: "'v js_map" where
  "Map_new = []"

definition Map_get :: "'v js_map \<Rightarrow> string \<Rightarrow> 'v option" where
  "Map_get m k = map_of m k"

definition Map_set :: "'v js_map \<Rightarrow> string \<Rightarrow> 'v \<Rightarrow> 'v js_map" where
  "Map_set m k v = AList.update k v m"

definition Map_delete :: "'v js_map \<Rightarrow> string \<Rightarrow> 'v js_map" where
  "Map_delete m k = AList.delete k m"

definition Map_clear :: "'v js_map \<Rightarrow> 'v js_map" where
  "Map_clear m = []"

definition Map_size :: "'v js_map \<Rightarrow> nat" where
  "Map_size m = length m"

definition Map_keys :: "'v js_map \<Rightarrow> string list" where
  "Map_keys m = map fst m"

section \<open>DataCache\<close>

text \<open>
  \<open>class DataCache\<close> of \<open>services/api.ts\<close>: the value map \<open>cache\<close>, the expiry map
  \<open>ttl\<close> and \<open>defaultTTL\<close>. The default TTL is read from the build environment
  (\<open>parseInt(VITE_CACHE_TTL || '3600000')\<close>) and is a parameter here. A reading of
  \<open>Date.now()\<close> is a natural number of milliseconds; a TTL and a stored expiry are
  integers of milliseconds. Every operation that reads the clock takes the reading as
  its argument \<open>now\<close>.
\<close>

record DataCache =
  cache :: "jsval js_map"
  ttl :: "int js_map"
  defaultTTL :: int

definition DataCache_new :: "int \<Rightarrow> DataCache" where
  "DataCache_new dflt = \<lparr>cache = Map_new, ttl = Map_new, defaultTTL = dflt\<rparr>"

text \<open>\<open>customTTL || this.defaultTTL\<close>: an omitted or zero \<open>customTTL\<close> gives the default.\<close>

definition effective_ttl :: "DataCache \<Rightarrow> int option \<Rightarrow> int" where
  "effective_ttl c customTTL =
     (case customTTL of
        None \<Rightarrow> defaultTTL c
      | Some t \<Rightarrow> if t = 0 then defaultTTL c else t)"

definition DataCache_set :: "DataCache \<Rightarrow> nat \<Rightarrow> string \<Rightarrow> jsval \<Rightarrow> int option \<Rightarrow> DataCache" where
  "DataCache_set c now key v customTTL =
     (let t = effective_ttl c customTTL
      in c\<lparr>cache := Map_set (cache c) key v,
            ttl := Map_set (ttl c) key (int now + t)\<rparr>)"

text \<open>
  \<open>get\<close> returns the value read and the cache it leaves. \<open>if (!expiry) return null\<close>
  answers \<open>null\<close> for a key with no expiry and for a stored expiry of \<open>0\<close>, deleting
  nothing; \<open>Date.now() > expiry\<close> deletes the key from both maps; otherwise the answer
  is \<open>this.cache.get(key) || null\<close>.
\<close>

definition DataCache_get :: "DataCache \<Rightarrow> nat \<Rightarrow> string \<Rightarrow> jsval \<times> DataCache" where
  "DataCache_get c now key =
     (case Map_get (ttl c) key of
        None \<Rightarrow> (JNull, c)
      | Some expiry \<Rightarrow>
          if expiry = 0 then (JNull, c)
          else if int now > expiry then
            (JNull, c\<lparr>cache := Map_delete (cache c) key, ttl := Map_delete (ttl c) key\<rparr>)
          else
            (case Map_get (cache c) key of
               None \<Rightarrow> (JNull, c)
             | Some v \<Rightarrow> (if truthy v then v else JNull, c)))"

definition DataCache_clear :: "DataCache \<Rightarrow> DataCache" where
  "DataCache_clear c = c\<lparr>cache := Map_clear (cache c), ttl := Map_clear (ttl c)\<rparr>"

definition DataCache_delete :: "DataCache \<Rightarrow> string \<Rightarrow> DataCache" where
  "DataCache_delete c key =
     c\<lparr>cache := Map_delete (cache c) key, ttl := Map_delete (ttl c) key\<rparr>"

text \<open>
  A finite sequence of cache operations, each with the clock reading it runs at, applied
  from left to right; the value a \<open>get\<close> returns is dropped.
\<close>

datatype cache_op =
    OpSet nat string jsval "int option"
  | OpGet nat string
  | OpDelete string
  | OpClear

fun apply_op :: "DataCache \<Rightarrow> cache_op \<Rightarrow> DataCache" where
  "apply_op c (OpSet now key v customTTL) = DataCache_set c now key v customTTL"
| "apply_op c (OpGet now key) = snd (DataCache_get c now key)"
| "apply_op c (OpDelete key) = DataCache_delete c key"
| "apply_op c OpClear = DataCache_clear c"

definition run_ops :: "DataCache \<Rightarrow> cache_op list \<Rightarrow> DataCache" where
  "run_ops c ops = foldl apply_op c ops"

text \<open>
  The two maps of a cache hold the same keys in the same order, each key once.
\<close>

definition cache_inv :: "DataCache \<Rightarrow> bool" where
  "cache_inv c = (Map_keys (cache c) = Map_keys (ttl c) \<and> distinct (Map_keys (cache c)))"

section \<open>Configuration and number printing\<close>

text \<open>
  \<open>API_BASE_URL\<close> and \<open>API_VERSION\<close> are computed once from the build environment and
  the browser's \<open>window\<close>; both are arguments here: the environment variable when it is
  set, and the page's \<open>(protocol, hostname)\<close> when there is a window.
\<close>

definition API_BASE_URL :: "string option \<Rightarrow> (string \<times> string) option \<Rightarrow> string" where
  "API_BASE_URL envUrl window =
     (case envUrl of
        Some u \<Rightarrow>
          if u \<noteq> [] then u
          else (case window of
                  Some (protocol, hostname) \<Rightarrow> protocol @ ''//'' @ hostname @ '':8000''
                | None \<Rightarrow> ''http://localhost:8000'')
      | None \<Rightarrow>
          (case window of
             Some (protocol, hostname) \<Rightarrow> protocol @ ''//'' @ hostname @ '':8000''
           | None \<Rightarrow> ''http://localhost:8000''))"

definition API_VERSION :: "string option \<Rightarrow> string" where
  "API_VERSION env =
     (case env of None \<Rightarrow> ''v1'' | Some v \<Rightarrow> if v = [] then ''v1'' else v)"

text \<open>
  A number inside a template literal is printed by \<open>Number.prototype.toString\<close>; for an
  integer that is its decimal digits, with a minus sign when it is negative (the
  exponent notation of magnitudes from \<open>10^21\<close> on is outside the model).
\<close>

definition digit_char :: "nat \<Rightarrow> char" where
  "digit_char d = ''0123456789'' ! d"

function nat_toString :: "nat \<Rightarrow> string" where
  "nat_toString n =
     (if n < 10 then [digit_char n] else nat_toString (n div 10) @ [digit_char (n mod 10)])"
  by pat_completeness auto
termination
  by (relation "measure id") auto

declare nat_toString.simps [simp del]

definition Number_toString :: "int \<Rightarrow> string" where
  "Number_toString i =
     (if i < 0 then CHR ''-'' # nat_toString (nat (- i)) else nat_toString (nat i))"

definition Boolean_toString :: "bool \<Rightarrow> string" where
  "Boolean_toString b = (if b then ''true'' else ''false'')"

section \<open>fetch, Response and thrown errors\<close>

text \<open>
  A thrown value is an error object with its \<open>name\<close> (the constructor's name) and its
  \<open>message\<close>. One call of \<open>fetch\<close> either rejects with an error or resolves with a
  response; the response has its status and what \<open>response.json()\<close> settles with (the
  decoded body, or the error of a body that does not parse). \<open>response.ok\<close> is true for
  a status from 200 to 299. What \<open>fetch\<close> answers is chosen by the network, so the
  outcome of the one call \<open>request\<close> makes is an argument of the model.
\<close>

datatype js_error = JsError (error_name: string) (error_message: string)

record Response =
  status :: nat
  json :: "js_error + jsval"

definition Response_ok :: "Response \<Rightarrow> bool" where
  "Response_ok r = (200 \<le> status r \<and> status r \<le> 299)"

datatype fetch_outcome = FetchRejected js_error | FetchResolved Response

text \<open>
  \<open>RequestInit\<close>, with the three properties the code sets; \<open>None\<close> is a property that
  is not there. A header object is a list of name and value pairs.
\<close>

record RequestInit =
  http_method :: "string option"
  headers :: "(string \<times> string) list"
  body :: "string option"

definition no_options :: RequestInit where
  "no_options = \<lparr>http_method = None, headers = [], body = None\<rparr>"

definition defaultOptions :: RequestInit where
  "defaultOptions =
     \<lparr>http_method = Some ''GET'',
      headers = [(''Content-Type'', ''application/json''), (''Accept'', ''application/json'')],
      body = None\<rparr>"

text \<open>Object spread \<open>{...a, ...b}\<close>: the properties of \<open>b\<close> are written over those of \<open>a\<close>.\<close>

definition spread :: "(string \<times> 'v) list \<Rightarrow> (string \<times> 'v) list \<Rightarrow> (string \<times> 'v) list" where
  "spread a b = foldl (\<lambda>acc kv. AList.update (fst kv) (snd kv) acc) a b"

definition merge_config :: "RequestInit \<Rightarrow> RequestInit" where
  "merge_config options =
     \<lparr>http_method =
        (case http_method options of None \<Rightarrow> http_method defaultOptions | Some m \<Rightarrow> Some m),
      headers = spread (headers defaultOptions) (headers options),
      body = (case body options of None \<Rightarrow> body defaultOptions | Some b \<Rightarrow> Some b)\<rparr>"

text \<open>A call of \<open>fetch\<close>: the URL and the merged configuration.\<close>

type_synonym fetch_call = "string \<times> RequestInit"

section \<open>EOApiClient\<close>

record EOApiClient =
  baseURL :: string

definition EOApiClient_new :: "string \<Rightarrow> string \<Rightarrow> EOApiClient" where
  "EOApiClient_new version base = \<lparr>baseURL = base @ ''/api/'' @ version\<rparr>"

text \<open>
  \<open>request\<close> returns what the promise settles with (\<open>Inl\<close> the thrown error, \<open>Inr\<close> the
  decoded body) and the calls of \<open>fetch\<close> it made. The \<open>catch\<close> block logs to the console
  and throws the same error again; the console is not modelled.
\<close>

definition EOApiClient_request ::
  "fetch_outcome \<Rightarrow> EOApiClient \<Rightarrow> string \<Rightarrow> RequestInit \<Rightarrow> (js_error + jsval) \<times> fetch_call list" where
  "EOApiClient_request net c endpoint options =
     (let url = baseURL c @ endpoint;
          config = merge_config options
      in ((case net of
             FetchRejected e \<Rightarrow> Inl e
           | FetchResolved response \<Rightarrow>
               if \<not> Response_ok response then
                 Inl (JsError ''Error''
                        (''HTTP error! status: '' @ Number_toString (int (status response))))
               else json response),
          [(url, config)]))"

text \<open>
  The accessors build the endpoint with a template literal: the year is printed and the
  region is inserted as it is. An omitted region is \<open>'nepal_himalayas'\<close>; the models
  take the region the call runs with.
\<close>

definition EOApiClient_getNDVIData ::
  "fetch_outcome \<Rightarrow> EOApiClient \<Rightarrow> int \<Rightarrow> string \<Rightarrow> (js_error + jsval) \<times> fetch_call list" where
  "EOApiClient_getNDVIData net c year region =
     EOApiClient_request net c
       (''/environmental/ndvi/'' @ Number_toString year @ ''?region='' @ region) no_options"

definition EOApiClient_getGlacierData ::
  "fetch_outcome \<Rightarrow> EOApiClient \<Rightarrow> int \<Rightarrow> string \<Rightarrow> (js_error + jsval) \<times> fetch_call list" where
  "EOApiClient_getGlacierData net c year region =
     EOApiClient_request net c
       (''/environmental/glacier/'' @ Number_toString year @ ''?region='' @ region) no_options"

definition EOApiClient_getUrbanData ::
  "fetch_outcome \<Rightarrow> EOApiClient \<Rightarrow> int \<Rightarrow> string \<Rightarrow> (js_error + jsval) \<times> fetch_call list" where
  "EOApiClient_getUrbanData net c year region =
     EOApiClient_request net c
       (''/environmental/urban/'' @ Number_toString year @ ''?region='' @ region) no_options"

definition EOApiClient_getTemperatureData ::
  "fetch_outcome \<Rightarrow> EOApiClient \<Rightarrow> int \<Rightarrow> string \<Rightarrow> (js_error + jsval) \<times> fetch_call list" where
  "EOApiClient_getTemperatureData net c year region =
     EOApiClient_request net c
       (''/environmental/temperature/'' @ Number_toString year @ ''?region='' @ region) no_options"

definition EOApiClient_getEnvironmentalSummary ::
  "fetch_outcome \<Rightarrow> EOApiClient \<Rightarrow> int \<Rightarrow> string \<Rightarrow> (js_error + jsval) \<times> fetch_call list" where
  "EOApiClient_getEnvironmentalSummary net c year region =
     EOApiClient_request net c
       (''/environmental/summary?year='' @ Number_toString year @ ''&region='' @ region) no_options"

text \<open>
  \<open>getTemporalComparison\<close> builds its query with \<open>URLSearchParams\<close>, whose string form
  percent-encodes every name and value (the form-urlencoded serializer: letters,
  digits and \<open>*-._\<close> stay, a space becomes \<open>+\<close>, any other byte becomes \<open>%XX\<close>) and
  joins the pairs with \<open>&\<close>.
\<close>

definition hex_digit :: "nat \<Rightarrow> char" where
  "hex_digit d = ''0123456789ABCDEF'' ! d"

definition urlencoded_safe :: "char \<Rightarrow> bool" where
  "urlencoded_safe ch =
     (ch \<in> set ''abcdefghijklmnopqrstuvwxyzABCDEFGHIJKLMNOPQRSTUVWXYZ0123456789*-._'')"

definition urlencode_char :: "char \<Rightarrow> string" where
  "urlencode_char ch =
     (if urlencoded_safe ch then [ch]
      else if ch = CHR '' '' then ''+''
      else [CHR ''%'', hex_digit (of_char ch div 16), hex_digit (of_char ch mod 16)])"

definition urlencode :: "string \<Rightarrow> string" where
  "urlencode s = concat (map urlencode_char s)"

fun join_params :: "(string \<times> string) list \<Rightarrow> string" where
  "join_params [] = []"
| "join_params [(k, v)] = urlencode k @ ''='' @ urlencode v"
| "join_params ((k, v) # kv # rest) =
     urlencode k @ ''='' @ urlencode v @ ''&'' @ join_params (kv # rest)"

definition URLSearchParams_toString :: "(string \<times> string) list \<Rightarrow> string" where
  "URLSearchParams_toString params = join_params params"

definition EOApiClient_getTemporalComparison ::
  "fetch_outcome \<Rightarrow> EOApiClient \<Rightarrow> string \<Rightarrow> string \<Rightarrow> int \<Rightarrow> int \<Rightarrow> bool \<Rightarrow>
     (js_error + jsval) \<times> fetch_call list" where
  "EOApiClient_getTemporalComparison net c indicator region startYear endYear includeIntermediate =
     (let params =
            [(''indicator'', indicator),
             (''region'', region),
             (''start_year'', Number_toString startYear),
             (''end_year'', Number_toString endYear),
             (''include_intermediate'', Boolean_toString includeIntermediate)]
      in EOApiClient_request net c
           (''/environmental/compare/temporal?'' @ URLSearchParams_toString params) no_options)"

section \<open>EOApiService\<close>

text \<open>
  \<open>class EOApiService\<close>: a client and a cache. A cached accessor reads the cache at the
  clock reading \<open>now_get\<close>; on a miss it awaits the client, and the \<open>set\<close> that follows a
  resolved call runs at the later reading \<open>now_set\<close>. A rejected call throws out of the
  accessor before the \<open>set\<close>. The result is what the promise settles with, the service
  afterwards and the calls of \<open>fetch\<close> made.
\<close>

record EOApiService =
  svc_client :: EOApiClient
  svc_cache :: DataCache

definition EOApiService_new :: "string \<Rightarrow> string \<Rightarrow> int \<Rightarrow> EOApiService" where
  "EOApiService_new version base dflt =
     \<lparr>svc_client = EOApiClient_new version base, svc_cache = DataCache_new dflt\<rparr>"

type_synonym service_result = "(js_error + jsval) \<times> EOApiService \<times> fetch_call list"

definition EOApiService_getNDVIData ::
  "fetch_outcome \<Rightarrow> EOApiService \<Rightarrow> nat \<Rightarrow> nat \<Rightarrow> int \<Rightarrow> string \<Rightarrow> service_result" where
  "EOApiService_getNDVIData net s now_get now_set year region =
     (let cacheKey = ''ndvi_'' @ Number_toString year @ ''_'' @ region;
          (cachedData, c1) = DataCache_get (svc_cache s) now_get cacheKey
      in if truthy cachedData then (Inr cachedData, s\<lparr>svc_cache := c1\<rparr>, [])
         else (case EOApiClient_getNDVIData net (svc_client s) year region of
                 (Inl e, calls) \<Rightarrow> (Inl e, s\<lparr>svc_cache := c1\<rparr>, calls)
               | (Inr data, calls) \<Rightarrow>
                   (Inr data, s\<lparr>svc_cache := DataCache_set c1 now_set cacheKey data None\<rparr>, calls)))"

definition EOApiService_getGlacierData ::
  "fetch_outcome \<Rightarrow> EOApiService \<Rightarrow> nat \<Rightarrow> nat \<Rightarrow> int \<Rightarrow> string \<Rightarrow> service_result" where
  "EOApiService_getGlacierData net s now_get now_set year region =
     (let cacheKey = ''glacier_'' @ Number_toString year @ ''_'' @ region;
          (cachedData, c1) = DataCache_get (svc_cache s) now_get cacheKey
      in if truthy cachedData then (Inr cachedData, s\<lparr>svc_cache := c1\<rparr>, [])
         else (case EOApiClient_getGlacierData net (svc_client s) year region of
                 (Inl e, calls) \<Rightarrow> (Inl e, s\<lparr>svc_cache := c1\<rparr>, calls)
               | (Inr data, calls) \<Rightarrow>
                   (Inr data, s\<lparr>svc_cache := DataCache_set c1 now_set cacheKey data None\<rparr>, calls)))"

definition EOApiService_getUrbanData ::
  "fetch_outcome \<Rightarrow> EOApiService \<Rightarrow> nat \<Rightarrow> nat \<Rightarrow> int \<Rightarrow> string \<Rightarrow> service_result" where
  "EOApiService_getUrbanData net s now_get now_set year region =
     (let cacheKey = ''urban_'' @ Number_toString year @ ''_'' @ region;
          (cachedData, c1) = DataCache_get (svc_cache s) now_get cacheKey
      in if truthy cachedData then (Inr cachedData, s\<lparr>svc_cache := c1\<rparr>, [])
         else (case EOApiClient_getUrbanData net (svc_client s) year region of
                 (Inl e, calls) \<Rightarrow> (Inl e, s\<lparr>svc_cache := c1\<rparr>, calls)
               | (Inr data, calls) \<Rightarrow>
                   (Inr data, s\<lparr>svc_cache := DataCache_set c1 now_set cacheKey data None\<rparr>, calls)))"

definition EOApiService_getTemperatureData ::
  "fetch_outcome \<Rightarrow> EOApiService \<Rightarrow> nat \<Rightarrow> nat \<Rightarrow> int \<Rightarrow> string \<Rightarrow> service_result" where
  "EOApiService_getTemperatureData net s now_get now_set year region =
     (let cacheKey = ''temperature_'' @ Number_toString year @ ''_'' @ region;
          (cachedData, c1) = DataCache_get (svc_cache s) now_get cacheKey
      in if truthy cachedData then (Inr cachedData, s\<lparr>svc_cache := c1\<rparr>, [])
         else (case EOApiClient_getTemperatureData net (svc_client s) year region of
                 (Inl e, calls) \<Rightarrow> (Inl e, s\<lparr>svc_cache := c1\<rparr>, calls)
               | (Inr data, calls) \<Rightarrow>
                   (Inr data, s\<lparr>svc_cache := DataCache_set c1 now_set cacheKey data None\<rparr>, calls)))"

definition EOApiService_getEnvironmentalSummary ::
  "fetch_outcome \<Rightarrow> EOApiService \<Rightarrow> nat \<Rightarrow> nat \<Rightarrow> int \<Rightarrow> string \<Rightarrow> service_result" where
  "EOApiService_getEnvironmentalSummary net s now_get now_set year region =
     (let cacheKey = ''summary_'' @ Number_toString year @ ''_'' @ region;
          (cachedData, c1) = DataCache_get (svc_cache s) now_get cacheKey
      in if truthy cachedData then (Inr cachedData, s\<lparr>svc_cache := c1\<rparr>, [])
         else (case EOApiClient_getEnvironmentalSummary net (svc_client s) year region of
                 (Inl e, calls) \<Rightarrow> (Inl e, s\<lparr>svc_cache := c1\<rparr>, calls)
               | (Inr data, calls) \<Rightarrow>
                   (Inr data, s\<lparr>svc_cache := DataCache_set c1 now_set cacheKey data None\<rparr>, calls)))"

definition EOApiService_clearCache :: "EOApiService \<Rightarrow> EOApiService" where
  "EOApiService_clearCache s = s\<lparr>svc_cache := DataCache_clear (svc_cache s)\<rparr>"

text \<open>
  \<open>getCacheStatus\<close> reads the size and the keys of the value map; it returns the status
  and the service it leaves.
\<close>

record CacheStatus =
  status_size :: nat
  status_keys :: "string list"

definition EOApiService_getCacheStatus :: "EOApiService \<Rightarrow> CacheStatus \<times> EOApiService" where
  "EOApiService_getCacheStatus s =
     (\<lparr>status_size = Map_size (cache (svc_cache s)),
       status_keys = Map_keys (cache (svc_cache s))\<rparr>, s)"

text \<open>
  The five cached accessors under one name, for statements about all of them: the
  operation, the text its cache key starts with, its accessor of the service and its
  accessor of the client.
\<close>

datatype cacheable_op = NDVI | Glacier | Urban | Temperature | Summary

fun op_name :: "cacheable_op \<Rightarrow> string" where
  "op_name NDVI = ''ndvi''"
| "op_name Glacier = ''glacier''"
| "op_name Urban = ''urban''"
| "op_name Temperature = ''temperature''"
| "op_name Summary = ''summary''"

definition cache_key :: "cacheable_op \<Rightarrow> int \<Rightarrow> string \<Rightarrow> string" where
  "cache_key opn year region = op_name opn @ ''_'' @ Number_toString year @ ''_'' @ region"

fun service_call ::
  "cacheable_op \<Rightarrow> fetch_outcome \<Rightarrow> EOApiService \<Rightarrow> nat \<Rightarrow> nat \<Rightarrow> int \<Rightarrow> string \<Rightarrow> service_result" where
  "service_call NDVI = EOApiService_getNDVIData"
| "service_call Glacier = EOApiService_getGlacierData"
| "service_call Urban = EOApiService_getUrbanData"
| "service_call Temperature = EOApiService_getTemperatureData"
| "service_call Summary = EOApiService_getEnvironmentalSummary"

fun client_call ::
  "cacheable_op \<Rightarrow> fetch_outcome \<Rightarrow> EOApiClient \<Rightarrow> int \<Rightarrow> string \<Rightarrow>
     (js_error + jsval) \<times> fetch_call list" where
  "client_call NDVI = EOApiClient_getNDVIData"
| "client_call Glacier = EOApiClient_getGlacierData"
| "client_call Urban = EOApiClient_getUrbanData"
| "client_call Temperature = EOApiClient_getTemperatureData"
| "client_call Summary = EOApiClient_getEnvironmentalSummary"

section \<open>Facts about the Map model\<close>

lemma Map_get_set: "Map_get (Map_set m k v) k' = (if k' = k then Some v else Map_get m k')"
  by (simp add: Map_get_def Map_set_def update_conv')

lemma Map_get_delete: "Map_get (Map_delete m k) k' = (if k' = k then None else Map_get m k')"
  by (simp add: Map_get_def Map_delete_def delete_conv')

lemma Map_keys_set:
  "Map_keys (Map_set m k v) = (if k \<in> set (Map_keys m) then Map_keys m else Map_keys m @ [k])"
  by (simp add: Map_keys_def Map_set_def update_keys)

lemma Map_keys_delete: "Map_keys (Map_delete m k) = removeAll k (Map_keys m)"
  by (simp add: Map_keys_def Map_delete_def delete_keys)

lemma Map_get_None_iff: "Map_get m k = None \<longleftrightarrow> k \<notin> set (Map_keys m)"
  by (simp add: Map_get_def Map_keys_def map_of_eq_None_iff)

text \<open>The definitions to unfold when a call is evaluated on concrete arguments.\<close>

lemmas service_defs =
  EOApiService_getNDVIData_def EOApiService_getGlacierData_def EOApiService_getUrbanData_def
  EOApiService_getTemperatureData_def EOApiService_getEnvironmentalSummary_def

lemmas client_defs =
  EOApiClient_getNDVIData_def EOApiClient_getGlacierData_def EOApiClient_getUrbanData_def
  EOApiClient_getTemperatureData_def EOApiClient_getEnvironmentalSummary_def

lemmas eval_defs =
  service_defs client_defs EOApiService_new_def EOApiClient_new_def EOApiClient_request_def
  DataCache_new_def DataCache_get_def DataCache_set_def effective_ttl_def
  Map_new_def Map_get_def Map_set_def Map_delete_def Map_keys_def Map_size_def
  Number_toString_def nat_toString.simps digit_char_def cache_key_def Response_ok_def
  merge_config_def no_options_def defaultOptions_def spread_def Let_def

section \<open>The cache invariant\<close>

lemma cache_inv_new: "cache_inv (DataCache_new d)"
  by (simp add: cache_inv_def DataCache_new_def Map_new_def Map_keys_def)

lemma cache_inv_set: "cache_inv c \<Longrightarrow> cache_inv (DataCache_set c now key v customTTL)"
  by (auto simp add: cache_inv_def DataCache_set_def Let_def Map_keys_set)

lemma cache_inv_delete: "cache_inv c \<Longrightarrow> cache_inv (DataCache_delete c key)"
  by (auto simp add: cache_inv_def DataCache_delete_def Map_keys_delete distinct_removeAll)

lemma cache_inv_clear: "cache_inv c \<Longrightarrow> cache_inv (DataCache_clear c)"
  by (simp add: cache_inv_def DataCache_clear_def Map_clear_def Map_keys_def)

lemma cache_inv_get: "cache_inv c \<Longrightarrow> cache_inv (snd (DataCache_get c now key))"
  by (auto simp add: cache_inv_def DataCache_get_def Map_keys_delete distinct_removeAll
      split: option.splits)

lemma cache_inv_apply_op: "cache_inv c \<Longrightarrow> cache_inv (apply_op c x)"
  by (cases x) (simp_all add: cache_inv_set cache_inv_get cache_inv_delete cache_inv_clear)

lemma cache_inv_run_ops: "cache_inv c \<Longrightarrow> cache_inv (run_ops c ops)"
  unfolding run_ops_def
  by (induction ops arbitrary: c) (simp_all add: cache_inv_apply_op)

text \<open>
  C10. After any finite sequence of \<open>set\<close>, \<open>get\<close>, \<open>delete\<close> and \<open>clear\<close> from a fresh
  cache, the value map and the expiry map have the same key set, and neither holds a
  key twice: every stored value has exactly one expiry and no expiry is without a value.
\<close>

theorem DataCache_maps_share_keys:
  "set (Map_keys (cache (run_ops (DataCache_new d) ops))) =
     set (Map_keys (ttl (run_ops (DataCache_new d) ops)))
   \<and> distinct (Map_keys (cache (run_ops (DataCache_new d) ops)))
   \<and> distinct (Map_keys (ttl (run_ops (DataCache_new d) ops)))"
  using cache_inv_run_ops [OF cache_inv_new, of d ops] by (auto simp add: cache_inv_def)

section \<open>Expiry\<close>

text \<open>
  C1, as amended. For every key whose entry has a non-zero expiry timestamp \<open>expiresAt\<close>,
  \<open>get(key)\<close> at a clock reading strictly after \<open>expiresAt\<close> returns \<open>null\<close> and leaves
  the key in neither the value map nor the expiry map.
\<close>

theorem DataCache_get_after_expiry:
  assumes "Map_get (ttl c) key = Some expiresAt" and "expiresAt \<noteq> 0" and "expiresAt < int now"
  shows "fst (DataCache_get c now key) = JNull
       \<and> key \<notin> set (Map_keys (cache (snd (DataCache_get c now key))))
       \<and> key \<notin> set (Map_keys (ttl (snd (DataCache_get c now key))))"
  using assms by (simp add: DataCache_get_def Map_keys_delete)

theorem DataCache_get_after_expiry_witness:
  "fst (DataCache_get (DataCache_set (DataCache_new 3600000) 1000 ''k'' (JStr ''v'') (Some 500))
          1501 ''k'') = JNull
   \<and> ''k'' \<notin> set (Map_keys (cache (snd (DataCache_get
        (DataCache_set (DataCache_new 3600000) 1000 ''k'' (JStr ''v'') (Some 500)) 1501 ''k''))))
   \<and> ''k'' \<notin> set (Map_keys (ttl (snd (DataCache_get
        (DataCache_set (DataCache_new 3600000) 1000 ''k'' (JStr ''v'') (Some 500)) 1501 ''k''))))"
proof -
  let ?c = "DataCache_set (DataCache_new 3600000) 1000 ''k'' (JStr ''v'') (Some 500)"
  have stored: "Map_get (ttl ?c) ''k'' = Some 1500"
    by (simp add: DataCache_set_def DataCache_new_def effective_ttl_def Map_get_set)
  have nonzero: "(1500::int) \<noteq> 0" by simp
  have later: "(1500::int) < int 1501" by simp
  from DataCache_get_after_expiry [OF stored nonzero later] show ?thesis .
qed

text \<open>
  At the clock reading equal to the expiry the entry is still served: set at 1000 with a
  TTL of 500, the entry expires at 1500, and \<open>get\<close> at 1500 returns the value and
  keeps the entry.
\<close>

theorem DataCache_get_at_expiry_serves:
  "Map_get (ttl (DataCache_set (DataCache_new 3600000) 1000 ''k'' (JStr ''v'') (Some 500))) ''k''
     = Some 1500
   \<and> DataCache_get (DataCache_set (DataCache_new 3600000) 1000 ''k'' (JStr ''v'') (Some 500)) 1500 ''k''
     = (JStr ''v'', DataCache_set (DataCache_new 3600000) 1000 ''k'' (JStr ''v'') (Some 500))
   \<and> Map_keys (cache (snd (DataCache_get
        (DataCache_set (DataCache_new 3600000) 1000 ''k'' (JStr ''v'') (Some 500)) 1500 ''k'')))
     = [''k'']"
  by (simp add: DataCache_get_def DataCache_set_def DataCache_new_def effective_ttl_def
      Map_get_def Map_set_def Map_new_def Map_keys_def)

text \<open>
  C2, as amended. For every key, every truthy value and every TTL, \<open>set(key, value, ttl)\<close>
  followed by \<open>get(key)\<close> strictly before the TTL in force (the given one, or the default
  when it is omitted or zero) elapses returns the stored value.
\<close>

theorem DataCache_set_then_get:
  assumes "truthy v" and "int t1 < int t0 + effective_ttl c customTTL"
  shows "fst (DataCache_get (DataCache_set c t0 key v customTTL) t1 key) = v"
  using assms by (simp add: DataCache_get_def DataCache_set_def Let_def Map_get_set)

theorem DataCache_set_then_get_witness:
  "fst (DataCache_get (DataCache_set (DataCache_new 3600000) 1000 ''k'' (JStr ''v'') (Some 500))
          1200 ''k'') = JStr ''v''"
proof -
  have tr: "truthy (JStr ''v'')" by simp
  have before: "int 1200 < int 1000 + effective_ttl (DataCache_new 3600000) (Some 500)"
    by (simp add: effective_ttl_def)
  from DataCache_set_then_get [OF tr before] show ?thesis .
qed

text \<open>
  A stored \<open>0\<close> is not returned: \<open>get\<close> answers \<open>null\<close> for it before the TTL elapses.
\<close>

theorem DataCache_get_falsy_is_null:
  "fst (DataCache_get (DataCache_set (DataCache_new 3600000) 1000 ''k'' (JNum 0) (Some 500))
          1200 ''k'') = JNull
   \<and> fst (DataCache_get (DataCache_set (DataCache_new 3600000) 1000 ''k'' (JNum 0) (Some 500))
          1200 ''k'') \<noteq> JNum 0"
  by (simp add: DataCache_get_def DataCache_set_def DataCache_new_def effective_ttl_def
      Map_get_def Map_set_def Map_new_def)

section \<open>Request URLs\<close>

text \<open>
  C9. The version is \<open>v1\<close> and the base URL \<open>http://localhost:8000\<close> when neither
  is configured and there is no window. Every request goes to
  \<open>{baseURL}/api/{version}\<close> followed by the resource; with base URL
  \<open>http://localhost:8000\<close> and version \<open>v1\<close>, \<open>getNDVIData(2015, "nepal_himalayas")\<close>
  makes exactly one call of \<open>fetch\<close>, a \<open>GET\<close> of
  \<open>http://localhost:8000/api/v1/environmental/ndvi/2015?region=nepal_himalayas\<close>.
\<close>

theorem getNDVIData_request_url:
  "API_VERSION None = ''v1''
   \<and> API_BASE_URL None None = ''http://localhost:8000''
   \<and> baseURL (EOApiClient_new version base) = base @ ''/api/'' @ version
   \<and> snd (EOApiClient_request net c endpoint options)
     = [(baseURL c @ endpoint, merge_config options)]
   \<and> snd (EOApiClient_getNDVIData net (EOApiClient_new ''v1'' ''http://localhost:8000'')
           2015 ''nepal_himalayas'')
     = [(''http://localhost:8000/api/v1/environmental/ndvi/2015?region=nepal_himalayas'',
         \<lparr>http_method = Some ''GET'',
          headers = [(''Content-Type'', ''application/json''), (''Accept'', ''application/json'')],
          body = None\<rparr>)]"
  by (simp add: EOApiClient_getNDVIData_def EOApiClient_request_def EOApiClient_new_def
      API_VERSION_def API_BASE_URL_def merge_config_def no_options_def defaultOptions_def
      spread_def Number_toString_def nat_toString.simps digit_char_def)

text \<open>
  C6. The indicator accessors put the region into the URL as it is: for the region
  \<open>a&b=c\<close> the URL of \<open>getNDVIData\<close> ends in \<open>?region=a&b=c\<close>, while the URL-encoding
  of that region is \<open>a%26b%3Dc\<close>, which is what \<open>getTemporalComparison\<close> sends.
\<close>

theorem getNDVIData_region_not_encoded:
  "map fst (snd (EOApiClient_getNDVIData net (EOApiClient_new ''v1'' ''http://localhost:8000'')
                   2020 ''a&b=c''))
     = [''http://localhost:8000/api/v1/environmental/ndvi/2020?region=a&b=c'']
   \<and> urlencode ''a&b=c'' = ''a%26b%3Dc''
   \<and> map fst (snd (EOApiClient_getTemporalComparison net
                     (EOApiClient_new ''v1'' ''http://localhost:8000'')
                     ''ndvi'' ''a&b=c'' 2000 2025 False))
     = [''http://localhost:8000/api/v1/environmental/compare/temporal?indicator=ndvi&region=a%26b%3Dc&start_year=2000&end_year=2025&include_intermediate=false'']"
  by (simp add: EOApiClient_getNDVIData_def EOApiClient_getTemporalComparison_def
      EOApiClient_request_def EOApiClient_new_def URLSearchParams_toString_def
      Boolean_toString_def Number_toString_def nat_toString.simps digit_char_def
      urlencode_def urlencode_char_def urlencoded_safe_def hex_digit_def)

section \<open>Overwriting an entry\<close>

lemma count_list_distinct: "distinct xs \<Longrightarrow> x \<in> set xs \<Longrightarrow> count_list xs x = 1"
  by (induction xs) auto

lemma effective_ttl_set [simp]:
  "effective_ttl (DataCache_set c now key v customTTL) t = effective_ttl c t"
  by (simp add: effective_ttl_def DataCache_set_def Let_def split: option.splits)

text \<open>
  C8, as amended. For every key and values \<open>v1\<close>, \<open>v2\<close>: \<open>set(key, v1)\<close> followed by
  \<open>set(key, v2)\<close> leaves exactly one entry for the key in each map (in every cache
  whose maps hold the same keys once each, as every cache reached from a fresh one
  does), the stored value is \<open>v2\<close>, and the expiry of the entry is the clock reading of
  the second \<open>set\<close> plus its TTL, whatever the first \<open>set\<close> stored. A \<open>get(key)\<close>
  before that expiry returns \<open>v2\<close> when \<open>v2\<close> is truthy and \<open>null\<close> when it is falsy,
  whatever \<open>v1\<close> was.
\<close>

theorem DataCache_overwrite:
  "(cache_inv c \<longrightarrow>
      count_list (Map_keys (cache (DataCache_set (DataCache_set c t1 key v1 ttl1) t2 key v2 ttl2))) key = 1
    \<and> count_list (Map_keys (ttl (DataCache_set (DataCache_set c t1 key v1 ttl1) t2 key v2 ttl2))) key = 1)
   \<and> count_list (Map_keys (cache (DataCache_set (DataCache_set (run_ops (DataCache_new d) ops)
        t1 key v1 ttl1) t2 key v2 ttl2))) key = 1
   \<and> count_list (Map_keys (ttl (DataCache_set (DataCache_set (run_ops (DataCache_new d) ops)
        t1 key v1 ttl1) t2 key v2 ttl2))) key = 1
   \<and> Map_get (cache (DataCache_set (DataCache_set c t1 key v1 ttl1) t2 key v2 ttl2)) key = Some v2
   \<and> Map_get (ttl (DataCache_set (DataCache_set c t1 key v1 ttl1) t2 key v2 ttl2)) key
        = Some (int t2 + effective_ttl c ttl2)
   \<and> (int now < int t2 + effective_ttl c ttl2 \<longrightarrow>
        fst (DataCache_get (DataCache_set (DataCache_set c t1 key v1 ttl1) t2 key v2 ttl2) now key)
          = (if truthy v2 then v2 else JNull))"
proof -
  have counts: "count_list (Map_keys (cache (DataCache_set (DataCache_set c' t1 key v1 ttl1) t2 key v2 ttl2))) key = 1
      \<and> count_list (Map_keys (ttl (DataCache_set (DataCache_set c' t1 key v1 ttl1) t2 key v2 ttl2))) key = 1"
    if start: "cache_inv c'" for c'
  proof -
    let ?c2 = "DataCache_set (DataCache_set c' t1 key v1 ttl1) t2 key v2 ttl2"
    have inv: "cache_inv ?c2"
      using start by (simp add: cache_inv_set)
    have mem: "key \<in> set (Map_keys (cache ?c2))"
      by (simp add: DataCache_set_def Let_def Map_keys_set)
    from inv have dist: "distinct (Map_keys (cache ?c2))"
      unfolding cache_inv_def by blast
    from dist mem have one: "count_list (Map_keys (cache ?c2)) key = 1"
      by (rule count_list_distinct)
    from inv have keys: "Map_keys (ttl ?c2) = Map_keys (cache ?c2)"
      unfolding cache_inv_def by (rule conjE) (rule sym)
    have one': "count_list (Map_keys (ttl ?c2)) key = 1"
      by (simp only: keys one)
    from one one' show ?thesis by (rule conjI)
  qed
  let ?c2 = "DataCache_set (DataCache_set c t1 key v1 ttl1) t2 key v2 ttl2"
  have reach: "cache_inv (run_ops (DataCache_new d) ops)"
    by (rule cache_inv_run_ops [OF cache_inv_new])
  have stored: "Map_get (cache ?c2) key = Some v2"
    by (simp add: DataCache_set_def [of _ t2] Let_def Map_get_set)
  have expiry: "Map_get (ttl ?c2) key = Some (int t2 + effective_ttl c ttl2)"
    by (simp add: DataCache_set_def [of _ t2] Let_def Map_get_set)
  have read: "fst (DataCache_get ?c2 now key) = (if truthy v2 then v2 else JNull)"
    if "int now < int t2 + effective_ttl c ttl2"
    using that stored expiry by (simp add: DataCache_get_def)
  from counts [of c] counts [OF reach] stored expiry read show ?thesis
    by blast
qed

theorem DataCache_overwrite_witness:
  "count_list (Map_keys (cache (DataCache_set (DataCache_set (DataCache_new 3600000)
       1000 ''k'' (JStr ''old'') (Some 500)) 1100 ''k'' (JStr ''new'') (Some 200)))) ''k'' = 1
   \<and> count_list (Map_keys (ttl (DataCache_set (DataCache_set (DataCache_new 3600000)
       1000 ''k'' (JStr ''old'') (Some 500)) 1100 ''k'' (JStr ''new'') (Some 200)))) ''k'' = 1
   \<and> Map_get (cache (DataCache_set (DataCache_set (DataCache_new 3600000)
       1000 ''k'' (JStr ''old'') (Some 500)) 1100 ''k'' (JStr ''new'') (Some 200))) ''k''
     = Some (JStr ''new'')
   \<and> Map_get (ttl (DataCache_set (DataCache_set (DataCache_new 3600000)
       1000 ''k'' (JStr ''old'') (Some 500)) 1100 ''k'' (JStr ''new'') (Some 200))) ''k'' = Some 1300
   \<and> fst (DataCache_get (DataCache_set (DataCache_set (DataCache_new 3600000)
       1000 ''k'' (JStr ''old'') (Some 500)) 1100 ''k'' (JStr ''new'') (Some 200)) 1250 ''k'')
     = JStr ''new''"
proof -
  let ?c2 = "DataCache_set (DataCache_set (DataCache_new 3600000)
       1000 ''k'' (JStr ''old'') (Some 500)) 1100 ''k'' (JStr ''new'') (Some 200)"
  have inv: "cache_inv (DataCache_new 3600000)" by (rule cache_inv_new)
  have ttl_in_force: "effective_ttl (DataCache_new 3600000) (Some 200) = 200"
    by (simp add: effective_ttl_def)
  have before: "int 1250 < int 1100 + effective_ttl (DataCache_new 3600000) (Some 200)"
    by (simp add: ttl_in_force)
  have tr: "truthy (JStr ''new'')" by simp
  note th = DataCache_overwrite [where c = "DataCache_new 3600000" and ?t1.0 = 1000
      and key = "''k''" and ?v1.0 = "JStr ''old''" and ?ttl1.0 = "Some 500" and ?t2.0 = 1100
      and ?v2.0 = "JStr ''new''" and ?ttl2.0 = "Some 200" and now = 1250]
  from th inv have counts: "count_list (Map_keys (cache ?c2)) ''k'' = 1
      \<and> count_list (Map_keys (ttl ?c2)) ''k'' = 1"
    by blast
  from th have stored: "Map_get (cache ?c2) ''k'' = Some (JStr ''new'')"
    by blast
  from th have "Map_get (ttl ?c2) ''k''
      = Some (int 1100 + effective_ttl (DataCache_new 3600000) (Some 200))"
    by blast
  then have expiry: "Map_get (ttl ?c2) ''k'' = Some 1300"
    by (simp add: ttl_in_force)
  from th before have "fst (DataCache_get ?c2 1250 ''k'')
      = (if truthy (JStr ''new'') then JStr ''new'' else JNull)"
    by blast
  with tr have read: "fst (DataCache_get ?c2 1250 ''k'') = JStr ''new''"
    by simp
  from counts stored expiry read show ?thesis
    by blast
qed

text \<open>
  When the second value is \<open>0\<close>, \<open>get\<close> before the expiry returns \<open>null\<close>, not the value.
\<close>

theorem DataCache_overwrite_falsy_reads_null:
  "fst (DataCache_get (DataCache_set (DataCache_set (DataCache_new 3600000)
       1000 ''k'' (JStr ''old'') (Some 500)) 1100 ''k'' (JNum 0) (Some 200)) 1250 ''k'') = JNull
   \<and> fst (DataCache_get (DataCache_set (DataCache_set (DataCache_new 3600000)
       1000 ''k'' (JStr ''old'') (Some 500)) 1100 ''k'' (JNum 0) (Some 200)) 1250 ''k'') \<noteq> JNum 0"
  by (simp add: DataCache_get_def DataCache_set_def DataCache_new_def effective_ttl_def
      Map_get_def Map_set_def Map_new_def)

section \<open>The cache status\<close>

text \<open>
  C5, as amended. \<open>getCacheStatus()\<close> leaves the service as it is and returns the number
  of entries of the value map and their keys in the order of the map: a key is reported
  exactly when the value map holds it, and no clock is read, so a key that was set is
  reported whether or not its expiry has passed. For every cache reached from a fresh
  one no key is reported twice and the size is the number of keys the value map holds.
\<close>

theorem getCacheStatus_reports_stored:
  "snd (EOApiService_getCacheStatus s) = s
   \<and> status_size (fst (EOApiService_getCacheStatus s)) = Map_size (cache (svc_cache s))
   \<and> status_size (fst (EOApiService_getCacheStatus s)) = length (cache (svc_cache s))
   \<and> status_keys (fst (EOApiService_getCacheStatus s)) = map fst (cache (svc_cache s))
   \<and> status_size (fst (EOApiService_getCacheStatus s))
       = length (status_keys (fst (EOApiService_getCacheStatus s)))
   \<and> (k \<in> set (status_keys (fst (EOApiService_getCacheStatus s)))
        \<longleftrightarrow> Map_get (cache (svc_cache s)) k \<noteq> None)
   \<and> key \<in> set (status_keys (fst (EOApiService_getCacheStatus
        (s\<lparr>svc_cache := DataCache_set (svc_cache s) now key v customTTL\<rparr>))))
   \<and> distinct (status_keys (fst (EOApiService_getCacheStatus
        (s\<lparr>svc_cache := run_ops (DataCache_new d) ops\<rparr>))))
   \<and> status_size (fst (EOApiService_getCacheStatus
        (s\<lparr>svc_cache := run_ops (DataCache_new d) ops\<rparr>)))
       = card {k'. Map_get (cache (run_ops (DataCache_new d) ops)) k' \<noteq> None}"
proof -
  let ?c = "run_ops (DataCache_new d) ops"
  have basic: "snd (EOApiService_getCacheStatus s) = s
   \<and> status_size (fst (EOApiService_getCacheStatus s)) = Map_size (cache (svc_cache s))
   \<and> status_size (fst (EOApiService_getCacheStatus s)) = length (cache (svc_cache s))
   \<and> status_keys (fst (EOApiService_getCacheStatus s)) = map fst (cache (svc_cache s))
   \<and> status_size (fst (EOApiService_getCacheStatus s))
       = length (status_keys (fst (EOApiService_getCacheStatus s)))
   \<and> (k \<in> set (status_keys (fst (EOApiService_getCacheStatus s)))
        \<longleftrightarrow> Map_get (cache (svc_cache s)) k \<noteq> None)
   \<and> key \<in> set (status_keys (fst (EOApiService_getCacheStatus
        (s\<lparr>svc_cache := DataCache_set (svc_cache s) now key v customTTL\<rparr>))))"
    by (simp add: EOApiService_getCacheStatus_def Map_size_def Map_keys_def Map_get_def
        map_of_eq_None_iff DataCache_set_def Let_def Map_set_def dom_update)
  have "cache_inv ?c"
    by (rule cache_inv_run_ops [OF cache_inv_new])
  then have dist: "distinct (Map_keys (cache ?c))"
    unfolding cache_inv_def by blast
  then have d1: "distinct (status_keys (fst (EOApiService_getCacheStatus (s\<lparr>svc_cache := ?c\<rparr>))))"
    by (simp add: EOApiService_getCacheStatus_def)
  have "{k'. Map_get (cache ?c) k' \<noteq> None} = set (Map_keys (cache ?c))"
    by (auto simp add: Map_get_None_iff)
  then have "card {k'. Map_get (cache ?c) k' \<noteq> None} = length (Map_keys (cache ?c))"
    using dist by (simp add: distinct_card)
  then have d2: "status_size (fst (EOApiService_getCacheStatus (s\<lparr>svc_cache := ?c\<rparr>)))
       = card {k'. Map_get (cache ?c) k' \<noteq> None}"
    by (simp add: EOApiService_getCacheStatus_def Map_size_def Map_keys_def)
  from basic d1 d2 show ?thesis by blast
qed

text \<open>
  An entry stored at 1001 with the default TTL expires at 3601001; \<open>get\<close> at 4000000
  answers \<open>null\<close> for it, and the status of the untouched cache still counts and lists it.
\<close>

theorem getCacheStatus_lists_expired:
  "Map_get (ttl (svc_cache (fst (snd (EOApiService_getNDVIData
        (FetchResolved \<lparr>status = 200, json = Inr (JStr ''data'')\<rparr>)
        (EOApiService_new ''v1'' ''http://localhost:8000'' 3600000) 1000 1001 2020 ''nepal_himalayas'')))))
      ''ndvi_2020_nepal_himalayas'' = Some 3601001
   \<and> fst (DataCache_get (svc_cache (fst (snd (EOApiService_getNDVIData
        (FetchResolved \<lparr>status = 200, json = Inr (JStr ''data'')\<rparr>)
        (EOApiService_new ''v1'' ''http://localhost:8000'' 3600000) 1000 1001 2020 ''nepal_himalayas''))))
        4000000 ''ndvi_2020_nepal_himalayas'') = JNull
   \<and> fst (EOApiService_getCacheStatus (fst (snd (EOApiService_getNDVIData
        (FetchResolved \<lparr>status = 200, json = Inr (JStr ''data'')\<rparr>)
        (EOApiService_new ''v1'' ''http://localhost:8000'' 3600000) 1000 1001 2020 ''nepal_himalayas''))))
      = \<lparr>status_size = 1, status_keys = [''ndvi_2020_nepal_himalayas'']\<rparr>"
  by (simp add: eval_defs EOApiService_getCacheStatus_def)

section \<open>Read-through caching\<close>

lemma service_call_unfold:
  "service_call opn net s now_get now_set year region =
     (let cacheKey = cache_key opn year region;
          (cachedData, c1) = DataCache_get (svc_cache s) now_get cacheKey
      in if truthy cachedData then (Inr cachedData, s\<lparr>svc_cache := c1\<rparr>, [])
         else (case client_call opn net (svc_client s) year region of
                 (Inl e, calls) \<Rightarrow> (Inl e, s\<lparr>svc_cache := c1\<rparr>, calls)
               | (Inr data, calls) \<Rightarrow>
                   (Inr data, s\<lparr>svc_cache := DataCache_set c1 now_set cacheKey data None\<rparr>, calls)))"
  by (cases opn; hypsubst; unfold service_call.simps client_call.simps op_name.simps)
    (simp_all add: service_defs cache_key_def)

lemma client_call_one: "length (snd (client_call opn net c year region)) = 1"
  by (cases opn) (simp_all add: client_defs EOApiClient_request_def Let_def)

lemma DataCache_get_hit:
  "Map_get (ttl c) key = Some e \<Longrightarrow> e \<noteq> 0 \<Longrightarrow> int now \<le> e \<Longrightarrow>
   Map_get (cache c) key = Some v \<Longrightarrow> truthy v \<Longrightarrow> DataCache_get c now key = (v, c)"
  by (simp add: DataCache_get_def)

lemma DataCache_get_miss_stable:
  "fst (DataCache_get c now key) = JNull \<Longrightarrow>
   fst (DataCache_get (snd (DataCache_get c now key)) t key) = JNull"
  by (auto simp add: DataCache_get_def Map_get_delete split: option.splits if_splits)

lemma defaultTTL_get [simp]: "defaultTTL (snd (DataCache_get c now key)) = defaultTTL c"
  by (simp add: DataCache_get_def split: option.splits)

text \<open>
  C3, as amended. For each of the five cached accessors and every year and region, with
  the key \<open>{op}_{year}_{region}\<close>: when the cache holds an entry for the key with a
  non-zero expiry not yet passed and a truthy value, the accessor returns that value,
  leaves the service as it is and makes no call of the client; when \<open>get\<close> for the key
  returns \<open>null\<close>, the accessor makes exactly the one call of the client, and when that
  call resolves the accessor returns its result and stores it under the key with the
  default TTL.
\<close>

theorem read_through:
  "(Map_get (ttl (svc_cache s)) (cache_key opn year region) = Some e \<and> e \<noteq> 0 \<and> int now_get \<le> e
      \<and> Map_get (cache (svc_cache s)) (cache_key opn year region) = Some v \<and> truthy v
    \<longrightarrow> service_call opn net s now_get now_set year region = (Inr v, s, []))
   \<and> (fst (DataCache_get (svc_cache s) now_get (cache_key opn year region)) = JNull
    \<longrightarrow> snd (snd (service_call opn net s now_get now_set year region))
          = snd (client_call opn net (svc_client s) year region)
      \<and> length (snd (snd (service_call opn net s now_get now_set year region))) = 1
      \<and> (fst (client_call opn net (svc_client s) year region) = Inr data
         \<longrightarrow> fst (service_call opn net s now_get now_set year region) = Inr data
           \<and> svc_cache (fst (snd (service_call opn net s now_get now_set year region)))
               = DataCache_set (snd (DataCache_get (svc_cache s) now_get (cache_key opn year region)))
                   now_set (cache_key opn year region) data None
           \<and> Map_get (cache (svc_cache (fst (snd (service_call opn net s now_get now_set year region)))))
               (cache_key opn year region) = Some data
           \<and> Map_get (ttl (svc_cache (fst (snd (service_call opn net s now_get now_set year region)))))
               (cache_key opn year region) = Some (int now_set + defaultTTL (svc_cache s))))"
proof (intro conjI impI)
  assume live: "Map_get (ttl (svc_cache s)) (cache_key opn year region) = Some e \<and> e \<noteq> 0
      \<and> int now_get \<le> e
      \<and> Map_get (cache (svc_cache s)) (cache_key opn year region) = Some v \<and> truthy v"
  then have "DataCache_get (svc_cache s) now_get (cache_key opn year region) = (v, svc_cache s)"
    by (simp add: DataCache_get_hit)
  with live show "service_call opn net s now_get now_set year region = (Inr v, s, [])"
    by (simp add: service_call_unfold Let_def)
next
  assume miss: "fst (DataCache_get (svc_cache s) now_get (cache_key opn year region)) = JNull"
  then show calls: "snd (snd (service_call opn net s now_get now_set year region))
          = snd (client_call opn net (svc_client s) year region)"
    by (simp add: service_call_unfold Let_def split_beta split: prod.splits sum.splits)
  then show "length (snd (snd (service_call opn net s now_get now_set year region))) = 1"
    by (simp add: client_call_one)
  assume ok: "fst (client_call opn net (svc_client s) year region) = Inr data"
  from miss ok show "fst (service_call opn net s now_get now_set year region) = Inr data"
    by (simp add: service_call_unfold Let_def split_beta split: prod.splits sum.splits)
  from miss ok show stored: "svc_cache (fst (snd (service_call opn net s now_get now_set year region)))
               = DataCache_set (snd (DataCache_get (svc_cache s) now_get (cache_key opn year region)))
                   now_set (cache_key opn year region) data None"
    by (simp add: service_call_unfold Let_def split_beta split: prod.splits sum.splits)
  show "Map_get (cache (svc_cache (fst (snd (service_call opn net s now_get now_set year region)))))
               (cache_key opn year region) = Some data"
    by (simp add: stored DataCache_set_def Let_def Map_get_set)
  show "Map_get (ttl (svc_cache (fst (snd (service_call opn net s now_get now_set year region)))))
               (cache_key opn year region) = Some (int now_set + defaultTTL (svc_cache s))"
    by (simp add: stored DataCache_set_def Let_def Map_get_set effective_ttl_def)
qed

theorem read_through_witness:
  "service_call NDVI (FetchRejected (JsError ''TypeError'' ''Failed to fetch''))
      ((EOApiService_new ''v1'' ''http://localhost:8000'' 3600000)
         \<lparr>svc_cache := DataCache_set (DataCache_new 3600000) 1000 ''ndvi_2020_nepal_himalayas''
            (JStr ''cached'') None\<rparr>)
      2000 2001 2020 ''nepal_himalayas''
    = (Inr (JStr ''cached''),
       (EOApiService_new ''v1'' ''http://localhost:8000'' 3600000)
         \<lparr>svc_cache := DataCache_set (DataCache_new 3600000) 1000 ''ndvi_2020_nepal_himalayas''
            (JStr ''cached'') None\<rparr>,
       [])
   \<and> length (snd (snd (service_call NDVI (FetchResolved \<lparr>status = 200, json = Inr (JStr ''fresh'')\<rparr>)
        (EOApiService_new ''v1'' ''http://localhost:8000'' 3600000) 2000 2001 2020 ''nepal_himalayas''))) = 1
   \<and> fst (service_call NDVI (FetchResolved \<lparr>status = 200, json = Inr (JStr ''fresh'')\<rparr>)
        (EOApiService_new ''v1'' ''http://localhost:8000'' 3600000) 2000 2001 2020 ''nepal_himalayas'')
      = Inr (JStr ''fresh'')
   \<and> Map_get (ttl (svc_cache (fst (snd (service_call NDVI
          (FetchResolved \<lparr>status = 200, json = Inr (JStr ''fresh'')\<rparr>)
          (EOApiService_new ''v1'' ''http://localhost:8000'' 3600000) 2000 2001 2020 ''nepal_himalayas'')))))
        ''ndvi_2020_nepal_himalayas'' = Some 3602001"
proof -
  let ?s0 = "EOApiService_new ''v1'' ''http://localhost:8000'' 3600000"
  let ?hit = "?s0\<lparr>svc_cache := DataCache_set (DataCache_new 3600000) 1000
      ''ndvi_2020_nepal_himalayas'' (JStr ''cached'') None\<rparr>"
  let ?net = "FetchResolved \<lparr>status = 200, json = Inr (JStr ''fresh'')\<rparr>"
  have key: "cache_key NDVI 2020 ''nepal_himalayas'' = ''ndvi_2020_nepal_himalayas''"
    by (simp add: cache_key_def Number_toString_def nat_toString.simps digit_char_def)
  have live: "Map_get (ttl (svc_cache ?hit)) (cache_key NDVI 2020 ''nepal_himalayas'') = Some 3601000
      \<and> (3601000::int) \<noteq> 0 \<and> int 2000 \<le> 3601000
      \<and> Map_get (cache (svc_cache ?hit)) (cache_key NDVI 2020 ''nepal_himalayas'') = Some (JStr ''cached'')
      \<and> truthy (JStr ''cached'')"
    by (simp add: key DataCache_set_def DataCache_new_def effective_ttl_def Map_get_set)
  have miss: "fst (DataCache_get (svc_cache ?s0) 2000 (cache_key NDVI 2020 ''nepal_himalayas'')) = JNull"
    by (simp add: key EOApiService_new_def DataCache_new_def DataCache_get_def Map_new_def Map_get_def)
  have ok: "fst (client_call NDVI ?net (svc_client ?s0) 2020 ''nepal_himalayas'') = Inr (JStr ''fresh'')"
    by (simp add: EOApiClient_getNDVIData_def EOApiClient_request_def Response_ok_def)
  have first: "service_call NDVI (FetchRejected (JsError ''TypeError'' ''Failed to fetch'')) ?hit
      2000 2001 2020 ''nepal_himalayas'' = (Inr (JStr ''cached''), ?hit, [])"
    using read_through [where s = ?hit and opn = NDVI and year = 2020 and region = "''nepal_himalayas''"
        and e = 3601000 and now_get = 2000 and v = "JStr ''cached''"] live
    by blast
  have second: "length (snd (snd (service_call NDVI ?net ?s0 2000 2001 2020 ''nepal_himalayas''))) = 1
     \<and> fst (service_call NDVI ?net ?s0 2000 2001 2020 ''nepal_himalayas'') = Inr (JStr ''fresh'')
     \<and> Map_get (ttl (svc_cache (fst (snd (service_call NDVI ?net ?s0 2000 2001 2020 ''nepal_himalayas'')))))
          (cache_key NDVI 2020 ''nepal_himalayas'') = Some (int 2001 + defaultTTL (svc_cache ?s0))"
    using read_through [where s = ?s0 and opn = NDVI and year = 2020 and region = "''nepal_himalayas''"
        and now_get = 2000 and now_set = 2001 and net = ?net and data = "JStr ''fresh''"] miss ok
    by blast
  from first second show ?thesis
    by (simp add: key EOApiService_new_def DataCache_new_def)
qed

text \<open>
  A response body \<open>0\<close> is stored with the default TTL; while that entry is live the
  accessor does not return it and calls the client again.
\<close>

theorem falsy_entry_refetched:
  "Map_get (cache (svc_cache (fst (snd (EOApiService_getNDVIData
        (FetchResolved \<lparr>status = 200, json = Inr (JNum 0)\<rparr>)
        (EOApiService_new ''v1'' ''http://localhost:8000'' 3600000) 1000 1001 2020 ''nepal_himalayas'')))))
      ''ndvi_2020_nepal_himalayas'' = Some (JNum 0)
   \<and> Map_get (ttl (svc_cache (fst (snd (EOApiService_getNDVIData
        (FetchResolved \<lparr>status = 200, json = Inr (JNum 0)\<rparr>)
        (EOApiService_new ''v1'' ''http://localhost:8000'' 3600000) 1000 1001 2020 ''nepal_himalayas'')))))
      ''ndvi_2020_nepal_himalayas'' = Some 3601001
   \<and> fst (EOApiService_getNDVIData (FetchResolved \<lparr>status = 200, json = Inr (JStr ''fresh'')\<rparr>)
        (fst (snd (EOApiService_getNDVIData
          (FetchResolved \<lparr>status = 200, json = Inr (JNum 0)\<rparr>)
          (EOApiService_new ''v1'' ''http://localhost:8000'' 3600000) 1000 1001 2020 ''nepal_himalayas'')))
        2000 2001 2020 ''nepal_himalayas'') = Inr (JStr ''fresh'')
   \<and> length (snd (snd (EOApiService_getNDVIData (FetchResolved \<lparr>status = 200, json = Inr (JStr ''fresh'')\<rparr>)
        (fst (snd (EOApiService_getNDVIData
          (FetchResolved \<lparr>status = 200, json = Inr (JNum 0)\<rparr>)
          (EOApiService_new ''v1'' ''http://localhost:8000'' 3600000) 1000 1001 2020 ''nepal_himalayas'')))
        2000 2001 2020 ''nepal_himalayas''))) = 1"
  by (simp add: eval_defs)

text \<open>
  C4, as amended. For each of the five cached accessors: when \<open>get\<close> for the key returns
  \<open>null\<close> and the call of the client fails, the accessor fails with the same error, stores
  nothing (the service afterwards has the cache as that \<open>get\<close> left it), \<open>get\<close> for the
  key on it returns \<open>null\<close> at every clock reading, and the next call for the same
  operation, year and region calls the client again.
\<close>

theorem failed_fetch_not_cached:
  assumes miss: "fst (DataCache_get (svc_cache s) now_get (cache_key opn year region)) = JNull"
      and fail: "fst (client_call opn net (svc_client s) year region) = Inl e"
  shows "fst (service_call opn net s now_get now_set year region) = Inl e
       \<and> fst (snd (service_call opn net s now_get now_set year region))
           = s\<lparr>svc_cache := snd (DataCache_get (svc_cache s) now_get (cache_key opn year region))\<rparr>
       \<and> fst (DataCache_get (svc_cache (fst (snd (service_call opn net s now_get now_set year region))))
                t (cache_key opn year region)) = JNull
       \<and> length (snd (snd (service_call opn net'
            (fst (snd (service_call opn net s now_get now_set year region))) t t' year region))) = 1"
proof -
  let ?key = "cache_key opn year region"
  let ?s' = "fst (snd (service_call opn net s now_get now_set year region))"
  from miss fail have res: "fst (service_call opn net s now_get now_set year region) = Inl e"
    by (simp add: service_call_unfold Let_def split_beta split: prod.splits sum.splits)
  from miss fail have st: "?s' = s\<lparr>svc_cache := snd (DataCache_get (svc_cache s) now_get ?key)\<rparr>"
    by (simp add: service_call_unfold Let_def split_beta split: prod.splits sum.splits)
  from miss have absent: "fst (DataCache_get (svc_cache ?s') t ?key) = JNull"
    by (simp add: st DataCache_get_miss_stable)
  then have "snd (snd (service_call opn net' ?s' t t' year region))
      = snd (client_call opn net' (svc_client ?s') year region)"
    by (simp add: service_call_unfold [of opn net' ?s'] Let_def split_beta split: prod.splits sum.splits)
  then have again: "length (snd (snd (service_call opn net' ?s' t t' year region))) = 1"
    by (simp add: client_call_one)
  from res st absent again show ?thesis by simp
qed

theorem failed_fetch_not_cached_witness:
  "fst (service_call NDVI (FetchRejected (JsError ''TypeError'' ''Failed to fetch''))
        (EOApiService_new ''v1'' ''http://localhost:8000'' 3600000) 2000 2001 2020 ''nepal_himalayas'')
     = Inl (JsError ''TypeError'' ''Failed to fetch'')
   \<and> fst (snd (service_call NDVI (FetchRejected (JsError ''TypeError'' ''Failed to fetch''))
        (EOApiService_new ''v1'' ''http://localhost:8000'' 3600000) 2000 2001 2020 ''nepal_himalayas''))
     = EOApiService_new ''v1'' ''http://localhost:8000'' 3600000
   \<and> fst (DataCache_get (svc_cache (fst (snd (service_call NDVI
          (FetchRejected (JsError ''TypeError'' ''Failed to fetch''))
          (EOApiService_new ''v1'' ''http://localhost:8000'' 3600000) 2000 2001 2020 ''nepal_himalayas''))))
        3000 ''ndvi_2020_nepal_himalayas'') = JNull
   \<and> length (snd (snd (service_call NDVI (FetchResolved \<lparr>status = 200, json = Inr (JStr ''fresh'')\<rparr>)
        (fst (snd (service_call NDVI (FetchRejected (JsError ''TypeError'' ''Failed to fetch''))
          (EOApiService_new ''v1'' ''http://localhost:8000'' 3600000) 2000 2001 2020 ''nepal_himalayas'')))
        3000 3001 2020 ''nepal_himalayas''))) = 1"
proof -
  let ?s0 = "EOApiService_new ''v1'' ''http://localhost:8000'' 3600000"
  let ?down = "FetchRejected (JsError ''TypeError'' ''Failed to fetch'')"
  have key: "cache_key NDVI 2020 ''nepal_himalayas'' = ''ndvi_2020_nepal_himalayas''"
    by (simp add: cache_key_def Number_toString_def nat_toString.simps digit_char_def)
  have miss: "fst (DataCache_get (svc_cache ?s0) 2000 (cache_key NDVI 2020 ''nepal_himalayas'')) = JNull"
    by (simp add: key EOApiService_new_def DataCache_new_def DataCache_get_def Map_new_def Map_get_def)
  have fail: "fst (client_call NDVI ?down (svc_client ?s0) 2020 ''nepal_himalayas'')
      = Inl (JsError ''TypeError'' ''Failed to fetch'')"
    by (simp add: EOApiClient_getNDVIData_def EOApiClient_request_def)
  have unchanged: "?s0\<lparr>svc_cache := snd (DataCache_get (svc_cache ?s0) 2000
      (cache_key NDVI 2020 ''nepal_himalayas''))\<rparr> = ?s0"
    by (simp add: key EOApiService_new_def DataCache_new_def DataCache_get_def Map_new_def Map_get_def)
  let ?after = "fst (snd (service_call NDVI ?down ?s0 2000 2001 2020 ''nepal_himalayas''))"
  note th = failed_fetch_not_cached [OF miss fail, of 2001 3000
      "FetchResolved \<lparr>status = 200, json = Inr (JStr ''fresh'')\<rparr>" 3001]
  from th have a: "fst (service_call NDVI ?down ?s0 2000 2001 2020 ''nepal_himalayas'')
      = Inl (JsError ''TypeError'' ''Failed to fetch'')"
    by blast
  from th have "?after = ?s0\<lparr>svc_cache := snd (DataCache_get (svc_cache ?s0) 2000
      (cache_key NDVI 2020 ''nepal_himalayas''))\<rparr>"
    by blast
  then have b: "?after = ?s0"
    using unchanged by (rule trans)
  from th have c: "fst (DataCache_get (svc_cache ?after) 3000
      (cache_key NDVI 2020 ''nepal_himalayas'')) = JNull"
    by blast
  from th have d: "length (snd (snd (service_call NDVI
      (FetchResolved \<lparr>status = 200, json = Inr (JStr ''fresh'')\<rparr>) ?after
      3000 3001 2020 ''nepal_himalayas''))) = 1"
    by blast
  from a b c d show ?thesis
    unfolding key by blast
qed

text \<open>
  An entry with the stored value \<open>0\<close> stays in the cache through a failed fetch for its
  key: the value map still holds the key and the status lists it.
\<close>

theorem failed_fetch_keeps_falsy_entry:
  "fst (EOApiService_getNDVIData (FetchRejected (JsError ''TypeError'' ''Failed to fetch''))
        (fst (snd (EOApiService_getNDVIData
          (FetchResolved \<lparr>status = 200, json = Inr (JNum 0)\<rparr>)
          (EOApiService_new ''v1'' ''http://localhost:8000'' 3600000) 1000 1001 2020 ''nepal_himalayas'')))
        2000 2001 2020 ''nepal_himalayas'') = Inl (JsError ''TypeError'' ''Failed to fetch'')
   \<and> Map_get (cache (svc_cache (fst (snd (EOApiService_getNDVIData
        (FetchRejected (JsError ''TypeError'' ''Failed to fetch''))
        (fst (snd (EOApiService_getNDVIData
          (FetchResolved \<lparr>status = 200, json = Inr (JNum 0)\<rparr>)
          (EOApiService_new ''v1'' ''http://localhost:8000'' 3600000) 1000 1001 2020 ''nepal_himalayas'')))
        2000 2001 2020 ''nepal_himalayas''))))) ''ndvi_2020_nepal_himalayas'' = Some (JNum 0)
   \<and> status_keys (fst (EOApiService_getCacheStatus (fst (snd (EOApiService_getNDVIData
        (FetchRejected (JsError ''TypeError'' ''Failed to fetch''))
        (fst (snd (EOApiService_getNDVIData
          (FetchResolved \<lparr>status = 200, json = Inr (JNum 0)\<rparr>)
          (EOApiService_new ''v1'' ''http://localhost:8000'' 3600000) 1000 1001 2020 ''nepal_himalayas'')))
        2000 2001 2020 ''nepal_himalayas''))))) = [''ndvi_2020_nepal_himalayas'']"
  by (simp add: eval_defs EOApiService_getCacheStatus_def)

section \<open>Failures of a request\<close>

lemma digit_char_inj: "a < 10 \<Longrightarrow> b < 10 \<Longrightarrow> digit_char a = digit_char b \<Longrightarrow> a = b"
  by (auto simp: digit_char_def less_Suc_eq eval_nat_numeral)

lemma nat_toString_nonempty: "nat_toString n \<noteq> []"
  by (subst nat_toString.simps) simp

lemma nat_toString_inj: "nat_toString m = nat_toString n \<Longrightarrow> m = n"
proof (induction m arbitrary: n rule: nat_toString.induct)
  case (1 m)
  show ?case
  proof (cases "m < 10")
    case small_m: True
    show ?thesis
    proof (cases "n < 10")
      case True
      with small_m "1.prems" show ?thesis
        by (simp add: nat_toString.simps [of m] nat_toString.simps [of n] digit_char_inj)
    next
      case False
      with small_m "1.prems" nat_toString_nonempty [of "n div 10"] show ?thesis
        by (simp add: nat_toString.simps [of m] nat_toString.simps [of n])
    qed
  next
    case big_m: False
    show ?thesis
    proof (cases "n < 10")
      case True
      with big_m "1.prems" nat_toString_nonempty [of "m div 10"] show ?thesis
        by (simp add: nat_toString.simps [of m] nat_toString.simps [of n])
    next
      case False
      with big_m "1.prems" have eq: "nat_toString (m div 10) = nat_toString (n div 10)"
        and d: "digit_char (m mod 10) = digit_char (n mod 10)"
        by (simp_all add: nat_toString.simps [of m] nat_toString.simps [of n])
      from "1.IH" [OF big_m eq] have "m div 10 = n div 10" .
      moreover from d have "m mod 10 = n mod 10"
        by (simp add: digit_char_inj)
      ultimately show ?thesis
        by (metis div_mult_mod_eq)
    qed
  qed
qed

lemma Number_toString_int_inj: "Number_toString (int m) = Number_toString (int n) \<Longrightarrow> m = n"
  by (simp add: Number_toString_def nat_toString_inj)

text \<open>
  C7, as amended. For every response with a status outside 200 to 299, \<open>request\<close> makes
  its one call of \<open>fetch\<close> and fails with an error named \<open>Error\<close> whose message is
  \<open>HTTP error! status: \<close> followed by the decimal status, so that different statuses
  give different errors; a rejected \<open>fetch\<close> fails with the error it rejected with, and
  a response from 200 to 299 settles with what \<open>response.json()\<close> settles with.
\<close>

theorem request_failures:
  "(\<not> Response_ok r \<longrightarrow>
      EOApiClient_request (FetchResolved r) c endpoint options
        = (Inl (JsError ''Error'' (''HTTP error! status: '' @ Number_toString (int (status r)))),
           [(baseURL c @ endpoint, merge_config options)]))
   \<and> (\<not> Response_ok r \<and> \<not> Response_ok r' \<and> status r \<noteq> status r' \<longrightarrow>
        fst (EOApiClient_request (FetchResolved r) c endpoint options)
          \<noteq> fst (EOApiClient_request (FetchResolved r') c endpoint options))
   \<and> fst (EOApiClient_request (FetchRejected e) c endpoint options) = Inl e
   \<and> (Response_ok r \<longrightarrow> fst (EOApiClient_request (FetchResolved r) c endpoint options) = json r)"
proof (intro conjI impI)
  assume "\<not> Response_ok r"
  then show "EOApiClient_request (FetchResolved r) c endpoint options
      = (Inl (JsError ''Error'' (''HTTP error! status: '' @ Number_toString (int (status r)))),
         [(baseURL c @ endpoint, merge_config options)])"
    by (simp add: EOApiClient_request_def Let_def)
next
  assume bad: "\<not> Response_ok r \<and> \<not> Response_ok r' \<and> status r \<noteq> status r'"
  then have "Number_toString (int (status r)) \<noteq> Number_toString (int (status r'))"
    using Number_toString_int_inj by blast
  with bad show "fst (EOApiClient_request (FetchResolved r) c endpoint options)
      \<noteq> fst (EOApiClient_request (FetchResolved r') c endpoint options)"
    by (simp add: EOApiClient_request_def Let_def)
next
  show "fst (EOApiClient_request (FetchRejected e) c endpoint options) = Inl e"
    by (simp add: EOApiClient_request_def Let_def)
next
  assume "Response_ok r"
  then show "fst (EOApiClient_request (FetchResolved r) c endpoint options) = json r"
    by (simp add: EOApiClient_request_def Let_def)
qed

theorem request_failures_witness:
  "EOApiClient_request (FetchResolved \<lparr>status = 404, json = Inr JNull\<rparr>)
      (EOApiClient_new ''v1'' ''http://localhost:8000'') ''/health'' no_options
     = (Inl (JsError ''Error'' ''HTTP error! status: 404''),
        [(''http://localhost:8000/api/v1/health'', merge_config no_options)])
   \<and> fst (EOApiClient_request (FetchResolved \<lparr>status = 404, json = Inr JNull\<rparr>)
        (EOApiClient_new ''v1'' ''http://localhost:8000'') ''/health'' no_options)
     \<noteq> fst (EOApiClient_request (FetchResolved \<lparr>status = 500, json = Inr JNull\<rparr>)
        (EOApiClient_new ''v1'' ''http://localhost:8000'') ''/health'' no_options)
   \<and> fst (EOApiClient_request (FetchResolved \<lparr>status = 200, json = Inl (JsError ''SyntaxError'' ''Unexpected token'')\<rparr>)
        (EOApiClient_new ''v1'' ''http://localhost:8000'') ''/health'' no_options)
     = Inl (JsError ''SyntaxError'' ''Unexpected token'')"
proof -
  let ?c = "EOApiClient_new ''v1'' ''http://localhost:8000''"
  let ?r404 = "\<lparr>status = 404, json = Inr JNull\<rparr>"
  let ?r500 = "\<lparr>status = 500, json = Inr JNull\<rparr>"
  let ?r200 = "\<lparr>status = 200, json = Inl (JsError ''SyntaxError'' ''Unexpected token'')\<rparr>"
  have bad404: "\<not> Response_ok ?r404" by (simp add: Response_ok_def)
  have bad: "\<not> Response_ok ?r404 \<and> \<not> Response_ok ?r500 \<and> status ?r404 \<noteq> status ?r500"
    by (simp add: Response_ok_def)
  have good: "Response_ok ?r200" by (simp add: Response_ok_def)
  have one: "EOApiClient_request (FetchResolved ?r404) ?c ''/health'' no_options
      = (Inl (JsError ''Error'' (''HTTP error! status: '' @ Number_toString (int (status ?r404)))),
         [(baseURL ?c @ ''/health'', merge_config no_options)])"
    using request_failures [where r = ?r404 and c = ?c and endpoint = "''/health''"
        and options = no_options] bad404 by blast
  have two: "fst (EOApiClient_request (FetchResolved ?r404) ?c ''/health'' no_options)
      \<noteq> fst (EOApiClient_request (FetchResolved ?r500) ?c ''/health'' no_options)"
    using request_failures [where r = ?r404 and r' = ?r500 and c = ?c and endpoint = "''/health''"
        and options = no_options] bad by blast
  have three: "fst (EOApiClient_request (FetchResolved ?r200) ?c ''/health'' no_options) = json ?r200"
    using request_failures [where r = ?r200 and c = ?c and endpoint = "''/health''"
        and options = no_options] good by blast
  from one two three show ?thesis
    by (simp add: EOApiClient_new_def Number_toString_def nat_toString.simps digit_char_def)
qed

text \<open>
  The error of a status 500 is a plain \<open>Error\<close> with the status in its message text; a
  \<open>fetch\<close> that rejects with an equal error makes the request fail with the same value.
\<close>

theorem http_failure_is_plain_error:
  "fst (EOApiClient_request (FetchResolved \<lparr>status = 500, json = Inr JNull\<rparr>)
        (EOApiClient_new ''v1'' ''http://localhost:8000'') ''/health'' no_options)
     = Inl (JsError ''Error'' ''HTTP error! status: 500'')
   \<and> fst (EOApiClient_request (FetchRejected (JsError ''Error'' ''HTTP error! status: 500''))
        (EOApiClient_new ''v1'' ''http://localhost:8000'') ''/health'' no_options)
     = Inl (JsError ''Error'' ''HTTP error! status: 500'')"
  by (simp add: EOApiClient_request_def Response_ok_def Number_toString_def nat_toString.simps
      digit_char_def)

end
